theory Spec2Isabelle
  imports Complex_Main
begin

section \<open>JavaScript values\<close>

text \<open>
  A JavaScript number: a finite value (every finite double is a rational; \<open>-0\<close> and \<open>0\<close>
  are both \<open>Finite 0\<close>), \<open>NaN\<close>, or one of the two infinities.
\<close>

datatype jsnum = Finite rat | NaN | PosInfinity | NegInfinity

text \<open>
  The values \<open>dropid\<close> and \<open>createPrefixedId\<close> test at run time with \<open>!x\<close> and
  \<open>typeof x\<close>. \<open>JObject\<close> stands for any object or array: it is truthy and its
  \<open>typeof\<close> is \<open>'object'\<close>, which is all the source asks of it.
  A string is a list of code units; the model covers the code units U+0000 to U+00FF,
  one \<open>char\<close> each.
\<close>

datatype jsval = JUndefined | JNull | JBool bool | JNum jsnum | JStr string | JObject

text \<open>A value of a TypeScript type \<open>T | undefined\<close> (an optional parameter or property).\<close>

datatype 'a orundef = Undefined | Def 'a

text \<open>\<open>!x\<close> is \<open>\<not> truthy x\<close>: undefined, null, false, 0, NaN and the empty string are falsy.\<close>

fun truthy :: "jsval \<Rightarrow> bool" where
  "truthy JUndefined = False"
| "truthy JNull = False"
| "truthy (JBool b) = b"
| "truthy (JNum (Finite q)) = (q \<noteq> 0)"
| "truthy (JNum NaN) = False"
| "truthy (JNum PosInfinity) = True"
| "truthy (JNum NegInfinity) = True"
| "truthy (JStr s) = (s \<noteq> [])"
| "truthy JObject = True"

fun typeof :: "jsval \<Rightarrow> string" where
  "typeof JUndefined = ''undefined''"
| "typeof JNull = ''object''"
| "typeof (JBool b) = ''boolean''"
| "typeof (JNum n) = ''number''"
| "typeof (JStr s) = ''string''"
| "typeof JObject = ''object''"

text \<open>A value of type \<open>string | undefined\<close>, seen as a run-time value.\<close>

fun strVal :: "string orundef \<Rightarrow> jsval" where
  "strVal Undefined = JUndefined"
| "strVal (Def s) = JStr s"

text \<open>The string a value holds; read only where \<open>typeof\<close> has answered \<open>'string'\<close>.\<close>

fun stringOf :: "jsval \<Rightarrow> string" where
  "stringOf (JStr s) = s"
| "stringOf _ = []"

text \<open>
  \<open>ToNumber\<close> on a value of type \<open>number | undefined\<close>, which \<open><\<close> applies to its
  operands (undefined becomes NaN), and the comparison \<open>a < b\<close> of two numbers: false as
  soon as one side is NaN.
\<close>

fun toNumber :: "jsnum orundef \<Rightarrow> jsnum" where
  "toNumber Undefined = NaN"
| "toNumber (Def n) = n"

fun js_less :: "jsnum \<Rightarrow> jsnum \<Rightarrow> bool" where
  "js_less NaN b = False"
| "js_less a NaN = False"
| "js_less (Finite a) (Finite b) = (a < b)"
| "js_less (Finite a) PosInfinity = True"
| "js_less (Finite a) NegInfinity = False"
| "js_less NegInfinity (Finite b) = True"
| "js_less NegInfinity PosInfinity = True"
| "js_less NegInfinity NegInfinity = False"
| "js_less PosInfinity b = False"

section \<open>String operations\<close>

text \<open>
  \<open>String.prototype.toLowerCase\<close> on the code units below U+0100: A to Z, and the
  upper-case letters U+00C0 to U+00DE without the multiplication sign U+00D7, move up
  by 32; every other code unit stays.
\<close>

definition toLowerChar :: "char \<Rightarrow> char" where
  "toLowerChar c =
     (let n = (of_char c :: nat)
      in if (65 \<le> n \<and> n \<le> 90) \<or> (192 \<le> n \<and> n \<le> 222 \<and> n \<noteq> 215)
         then char_of (n + 32) else c)"

definition toLowerCase :: "string \<Rightarrow> string" where
  "toLowerCase s = map toLowerChar s"

text \<open>
  The white space and line terminators \<open>String.prototype.trim\<close> strips, below U+0100:
  tab, line feed, vertical tab, form feed, carriage return, space, no-break space.
\<close>

definition isWhiteSpace :: "char \<Rightarrow> bool" where
  "isWhiteSpace c = ((of_char c :: nat) \<in> {9, 10, 11, 12, 13, 32, 160})"

definition trim :: "string \<Rightarrow> string" where
  "trim s = rev (dropWhile isWhiteSpace (rev (dropWhile isWhiteSpace s)))"

text \<open>\<open>Array.prototype.join\<close> on an array of strings.\<close>

fun join :: "string list \<Rightarrow> string \<Rightarrow> string" where
  "join [] sep = []"
| "join [x] sep = x"
| "join (x # y # ys) sep = x @ sep @ join (y # ys) sep"

section \<open>Options and the global configuration\<close>

text \<open>
  \<open>DropIdOptions\<close>: every property is optional, and holds a value of its declared type
  (\<open>number\<close>, \<open>string\<close>, \<open>string\<close>) or \<open>undefined\<close>. \<open>None\<close> is a property the
  object does not have; \<open>Some Undefined\<close> is a property that is present and holds
  \<open>undefined\<close> (\<open>{length: undefined}\<close> is a \<open>DropIdOptions\<close>), which the object
  spread copies like any other value.
\<close>

record DropIdOptions =
  length_opt :: "jsnum orundef option"
  alphabet_opt :: "string orundef option"
  separator_opt :: "string orundef option"

text \<open>
  \<open>Required<DropIdOptions>\<close> as it is at run time: the three properties are always
  present (the spread never removes one), each holding a value or \<open>undefined\<close>.
\<close>

record RequiredOptions =
  length_req :: "jsnum orundef"
  alphabet_req :: "string orundef"
  separator_req :: "string orundef"

definition defaultOptions :: RequiredOptions where
  "defaultOptions =
     \<lparr> length_req = Def (Finite 12),
       alphabet_req = Def ''0123456789abcdefghijklmnopqrstuvwxyz'',
       separator_req = Def ''_'' \<rparr>"

text \<open>The object spread \<open>{ ...base, ...over }\<close>: a property \<open>over\<close> has wins, whatever it holds.\<close>

definition spread :: "RequiredOptions \<Rightarrow> DropIdOptions \<Rightarrow> RequiredOptions" where
  "spread base over =
     \<lparr> length_req = (case length_opt over of None \<Rightarrow> length_req base | Some v \<Rightarrow> v),
       alphabet_req = (case alphabet_opt over of None \<Rightarrow> alphabet_req base | Some v \<Rightarrow> v),
       separator_req = (case separator_opt over of None \<Rightarrow> separator_req base | Some v \<Rightarrow> v) \<rparr>"

text \<open>The same with an optional parameter \<open>options?\<close>: spreading \<open>undefined\<close> adds nothing.\<close>

fun spread_opt :: "RequiredOptions \<Rightarrow> DropIdOptions option \<Rightarrow> RequiredOptions" where
  "spread_opt base None = base"
| "spread_opt base (Some over) = spread base over"

text \<open>
  The module's one mutable variable \<open>globalOptions\<close> is the state every operation takes
  and returns. Its initial value is a copy of \<open>defaultOptions\<close>.
\<close>

definition configure :: "DropIdOptions \<Rightarrow> RequiredOptions \<Rightarrow> RequiredOptions" where
  "configure options globalOptions = spread globalOptions options"

definition resetConfig :: "RequiredOptions \<Rightarrow> RequiredOptions" where
  "resetConfig globalOptions = defaultOptions"

definition getConfig :: "RequiredOptions \<Rightarrow> RequiredOptions \<times> RequiredOptions" where
  "getConfig globalOptions = (globalOptions, globalOptions)"

section \<open>The random suffix\<close>

text \<open>
  Modelled from the spec: \<open>customAlphabet\<close> of the package nanoid, which the repository
  imports and does not contain. The spec (4.3) gives its contract: for a validated
  alphabet (at least 2 characters) and a validated length (a positive integer), a string
  of exactly \<open>length\<close> characters, each a member of the alphabet. The randomness is the
  argument \<open>random\<close>, whose value at \<open>i\<close> selects the character at position \<open>i\<close>.
  Outside that contract the spec says nothing, and the result is \<open>None\<close>.
\<close>

definition customAlphabet :: "string \<Rightarrow> jsnum orundef \<Rightarrow> (nat \<Rightarrow> nat) \<Rightarrow> string option" where
  "customAlphabet alphabet defaultSize random =
     (case defaultSize of
        Def (Finite q) \<Rightarrow>
          if 1 \<le> q \<and> of_int \<lfloor>q\<rfloor> = q \<and> 2 \<le> length alphabet
          then Some (map (\<lambda>i. alphabet ! (random i mod length alphabet)) [0..<nat \<lfloor>q\<rfloor>])
          else None
      | _ \<Rightarrow> None)"

section \<open>Generating an identifier\<close>

datatype error = TypeError string | RangeError string

text \<open>
  What a call does: it throws, it returns a string, or it hands nanoid arguments
  outside the contract the spec gives for it (\<open>Unspecified\<close>).
\<close>

datatype result = Throws error | Returns string | Unspecified

definition dropid ::
  "jsval \<Rightarrow> string orundef \<Rightarrow> DropIdOptions option \<Rightarrow> (nat \<Rightarrow> nat) \<Rightarrow> RequiredOptions
     \<Rightarrow> result \<times> RequiredOptions" where
  "dropid modelName prefix options random globalOptions =
     (if \<not> truthy modelName \<or> typeof modelName \<noteq> ''string''
      then (Throws (TypeError ''modelName must be a non-empty string''), globalOptions)
      else
        let opts = spread_opt globalOptions options in
        if js_less (toNumber (length_req opts)) (Finite 1)
        then (Throws (RangeError ''length must be at least 1''), globalOptions)
        else if \<not> truthy (strVal (alphabet_req opts)) \<or> length (stringOf (strVal (alphabet_req opts))) < 2
        then (Throws (TypeError ''alphabet must contain at least 2 characters''), globalOptions)
        else if typeof (strVal (separator_req opts)) \<noteq> ''string''
        then (Throws (TypeError ''separator must be a string''), globalOptions)
        else
          (case customAlphabet (stringOf (strVal (alphabet_req opts))) (length_req opts) random of
             None \<Rightarrow> (Unspecified, globalOptions)
           | Some ident \<Rightarrow>
               let normalizedModelName = trim (toLowerCase (stringOf modelName));
                   parts = (if truthy (strVal prefix)
                            then [stringOf (strVal prefix), normalizedModelName, ident]
                            else [normalizedModelName, ident])
               in (Returns (join parts (stringOf (strVal (separator_req opts)))), globalOptions)))"

text \<open>
  \<open>createPrefixedId\<close> returns a closure. The closure reads \<open>globalOptions\<close> when it
  is called, so it takes the state of that moment as an argument, as \<open>dropid\<close> does.
\<close>

type_synonym generator = "jsval \<Rightarrow> (nat \<Rightarrow> nat) \<Rightarrow> RequiredOptions \<Rightarrow> result \<times> RequiredOptions"

text \<open>The parameter \<open>prefix\<close> as \<open>dropid\<close> is given it: the string it holds past the guard.\<close>

fun asPrefix :: "jsval \<Rightarrow> string orundef" where
  "asPrefix (JStr s) = Def s"
| "asPrefix _ = Undefined"

definition createPrefixedId ::
  "jsval \<Rightarrow> DropIdOptions option \<Rightarrow> RequiredOptions \<Rightarrow> (error + generator) \<times> RequiredOptions" where
  "createPrefixedId prefix options globalOptions =
     (if \<not> truthy prefix \<or> typeof prefix \<noteq> ''string''
      then (Inl (TypeError ''prefix must be a non-empty string''), globalOptions)
      else (Inr (\<lambda>modelName. dropid modelName (asPrefix prefix) options), globalOptions))"

text \<open>The object literal \<open>{ length: q }\<close>.\<close>

definition lengthOnly :: "rat \<Rightarrow> DropIdOptions" where
  "lengthOnly q = \<lparr> length_opt = Some (Def (Finite q)), alphabet_opt = None, separator_opt = None \<rparr>"

text \<open>A fixed source of randomness, for evaluating calls.\<close>

definition sample_random :: "nat \<Rightarrow> nat" where
  "sample_random i = 7 * i + 3"

section \<open>The properties, as the specification words them\<close>

text \<open>
  The structural pattern of the specification's format property:
  \<open>[prefix + separator +] normalizedModelName + separator + suffix\<close>, the bracketed
  part present exactly when a non-empty prefix was supplied.
\<close>

definition structuralPattern :: "string orundef \<Rightarrow> string \<Rightarrow> string \<Rightarrow> string \<Rightarrow> string" where
  "structuralPattern prefix separator normalizedModelName suffix =
     (case prefix of
        Undefined \<Rightarrow> []
      | Def p \<Rightarrow> if p = [] then [] else p @ separator)
     @ normalizedModelName @ separator @ suffix"

text \<open>
  The normalization of the specification: the model name with surrounding whitespace
  trimmed, then lower-cased (the source lower-cases first and trims second).
\<close>

definition trimmedAndLowerCased :: "string \<Rightarrow> string" where
  "trimmedAndLowerCased s = toLowerCase (trim s)"

text \<open>
  The invariant the specification gives a Configuration: \<open>length \<ge> 1\<close>, and the alphabet
  has at least 2 characters.
\<close>

fun lengthOk :: "jsnum orundef \<Rightarrow> bool" where
  "lengthOk (Def (Finite q)) = (1 \<le> q)"
| "lengthOk _ = False"

fun alphabetOk :: "string orundef \<Rightarrow> bool" where
  "alphabetOk (Def a) = (2 \<le> length a)"
| "alphabetOk Undefined = False"

definition invariant :: "RequiredOptions \<Rightarrow> bool" where
  "invariant c = (lengthOk (length_req c) \<and> alphabetOk (alphabet_req c))"

text \<open>
  The operations that write \<open>globalOptions\<close>, and a sequence of them run from a
  starting state.
\<close>

datatype operation = Configure DropIdOptions | ResetConfig

fun perform :: "operation \<Rightarrow> RequiredOptions \<Rightarrow> RequiredOptions" where
  "perform (Configure options) globalOptions = configure options globalOptions"
| "perform ResetConfig globalOptions = resetConfig globalOptions"

fun performAll :: "operation list \<Rightarrow> RequiredOptions \<Rightarrow> RequiredOptions" where
  "performAll [] globalOptions = globalOptions"
| "performAll (operation # operations) globalOptions =
     performAll operations (perform operation globalOptions)"

text \<open>An update every supplied field of which satisfies the invariant's condition on it.\<close>

definition legalUpdate :: "DropIdOptions \<Rightarrow> bool" where
  "legalUpdate options =
     ((case length_opt options of None \<Rightarrow> True | Some v \<Rightarrow> lengthOk v) \<and>
      (case alphabet_opt options of None \<Rightarrow> True | Some v \<Rightarrow> alphabetOk v))"

fun legalOperation :: "operation \<Rightarrow> bool" where
  "legalOperation (Configure options) = legalUpdate options"
| "legalOperation ResetConfig = True"

section \<open>Basic facts\<close>

text \<open>Lower-casing leaves white space white space and nothing else, so it commutes with trimming.\<close>

lemma isWhiteSpace_toLowerChar: "isWhiteSpace (toLowerChar c) = isWhiteSpace c"
  by (auto simp: isWhiteSpace_def toLowerChar_def Let_def)

lemma dropWhile_toLowerCase:
  "dropWhile isWhiteSpace (toLowerCase s) = toLowerCase (dropWhile isWhiteSpace s)"
  by (simp add: toLowerCase_def dropWhile_map comp_def isWhiteSpace_toLowerChar)

lemma rev_toLowerCase: "rev (toLowerCase s) = toLowerCase (rev s)"
  by (simp add: toLowerCase_def rev_map)

lemma trim_toLowerCase: "trim (toLowerCase s) = trimmedAndLowerCased s"
  by (simp add: trimmedAndLowerCased_def trim_def dropWhile_toLowerCase rev_toLowerCase)

text \<open>The suffix generator inside its contract.\<close>

lemma customAlphabet_contract:
  assumes "1 \<le> n" "2 \<le> length a"
  shows "\<exists>suffix. customAlphabet a (Def (Finite (of_nat n))) random = Some suffix
     \<and> length suffix = n \<and> set suffix \<subseteq> set a"
proof -
  have "a ! (random i mod length a) \<in> set a" for i
    using assms(2) by (intro nth_mem mod_less_divisor) auto
  then show ?thesis
    using assms by (auto simp: customAlphabet_def)
qed

text \<open>The array the source joins, with or without the prefix, is the structural pattern.\<close>

lemma join_parts:
  "join (if truthy (strVal prefix) then [stringOf (strVal prefix), name, suffix] else [name, suffix]) sep
     = structuralPattern prefix sep name suffix"
  by (cases prefix) (simp_all add: structuralPattern_def)

text \<open>A call that passes every check returns the joined parts and leaves the state alone.\<close>

lemma dropid_returns:
  assumes "s \<noteq> []"
    and "length_req (spread_opt g options) = Def (Finite (of_nat n))" and "1 \<le> n"
    and "alphabet_req (spread_opt g options) = Def a" and "2 \<le> length a"
    and "separator_req (spread_opt g options) = Def sep"
    and "customAlphabet a (Def (Finite (of_nat n))) random = Some suffix"
  shows "dropid (JStr s) prefix options random g
     = (Returns (structuralPattern prefix sep (trimmedAndLowerCased s) suffix), g)"
proof -
  have "a \<noteq> []" using assms(5) by auto
  then show ?thesis
    using assms by (simp add: dropid_def Let_def join_parts trim_toLowerCase)
qed

lemma dropid_returns_suffix:
  assumes "s \<noteq> []"
    and "length_req (spread_opt g options) = Def (Finite (of_nat n))" and "1 \<le> n"
    and "alphabet_req (spread_opt g options) = Def a" and "2 \<le> length a"
    and "separator_req (spread_opt g options) = Def sep"
  shows "\<exists>suffix. dropid (JStr s) prefix options random g
       = (Returns (structuralPattern prefix sep (trimmedAndLowerCased s) suffix), g)
     \<and> length suffix = n \<and> set suffix \<subseteq> set a"
proof -
  obtain suffix where suffix:
    "customAlphabet a (Def (Finite (of_nat n))) random = Some suffix"
    "length suffix = n" "set suffix \<subseteq> set a"
    using customAlphabet_contract [OF assms(3,5)] by blast
  from dropid_returns [OF assms suffix(1)] suffix(2,3) show ?thesis by blast
qed

text \<open>A call with options behaves as a call without them on the merged configuration.\<close>

lemma dropid_effective:
  "dropid modelName prefix options random g
     = (fst (dropid modelName prefix None random (spread_opt g options)), g)"
  by (simp add: dropid_def Let_def split: option.split)

lemma valid_modelName_iff:
  "(truthy modelName \<and> typeof modelName = ''string'') = (\<exists>s. modelName = JStr s \<and> s \<noteq> [])"
  by (cases modelName) auto

text \<open>
  The model-name check throws for every value that is not a non-empty string: an absent
  value, a value that is not a string, the empty string.
\<close>

lemma dropid_invalid_modelName:
  "(\<forall>s. modelName = JStr s \<longrightarrow> s = []) \<Longrightarrow>
   dropid modelName prefix options random globalOptions
     = (Throws (TypeError ''modelName must be a non-empty string''), globalOptions)"
proof -
  assume "\<forall>s. modelName = JStr s \<longrightarrow> s = []"
  then have "\<not> truthy modelName \<or> typeof modelName \<noteq> ''string''"
    using valid_modelName_iff [of modelName] by blast
  then show ?thesis
    by (simp add: dropid_def)
qed

lemma invariant_default: "invariant defaultOptions"
  by (simp add: invariant_def defaultOptions_def)

lemma invariant_configure:
  "invariant g \<Longrightarrow> legalUpdate options \<Longrightarrow> invariant (configure options g)"
  by (auto simp: invariant_def legalUpdate_def configure_def spread_def split: option.splits)

lemma invariant_perform:
  "invariant g \<Longrightarrow> legalOperation operation \<Longrightarrow> invariant (perform operation g)"
  by (cases operation) (simp_all add: invariant_configure resetConfig_def invariant_default)

lemma invariant_performAll:
  "invariant g \<Longrightarrow> list_all legalOperation operations \<Longrightarrow> invariant (performAll operations g)"
  by (induction operations arbitrary: g) (simp_all add: invariant_perform)

section \<open>The claims\<close>

text \<open>
  Claim C1 (format). For a model name that validates (a non-empty string \<open>s\<close>) and an
  effective configuration that validates (length a positive integer \<open>n\<close>, an alphabet
  of at least 2 characters, a separator string), \<open>dropid\<close> returns the structural
  pattern \<open>[prefix + separator +] normalizedModelName + separator + suffix\<close>: the
  suffix has exactly \<open>n\<close> characters, each a member of the alphabet, the normalized
  model name is \<open>s\<close> trimmed and lower-cased, and the prefix segment is there exactly when
  a non-empty prefix was supplied.
\<close>

theorem dropid_format:
  assumes "modelName = JStr s" and "s \<noteq> []"
    and "spread_opt globalOptions options =
           \<lparr> length_req = Def (Finite (of_nat n)), alphabet_req = Def alphabet,
             separator_req = Def separator \<rparr>"
    and "1 \<le> n" and "2 \<le> length alphabet"
  shows "\<exists>suffix.
           fst (dropid modelName prefix options random globalOptions)
             = Returns (structuralPattern prefix separator (trimmedAndLowerCased s) suffix)
         \<and> length suffix = n \<and> set suffix \<subseteq> set alphabet"
proof -
  obtain suffix where suffix:
    "customAlphabet alphabet (Def (Finite (of_nat n))) random = Some suffix"
    "length suffix = n" "set suffix \<subseteq> set alphabet"
    using customAlphabet_contract [OF assms(4,5)] by blast
  have "dropid (JStr s) prefix options random globalOptions
      = (Returns (structuralPattern prefix separator (trimmedAndLowerCased s) suffix), globalOptions)"
    using assms(2-5) suffix(1) by (intro dropid_returns) simp_all
  with assms(1) suffix(2,3) show ?thesis by auto
qed

text \<open>
  Claim C1 at a concrete call: \<open>dropid('  User ', 'acme', {length: 8, alphabet:
  '0123456789abcdef', separator: '-'})\<close> in the default configuration.
\<close>

theorem dropid_format_witness:
  "\<exists>suffix.
     fst (dropid (JStr ''  User '') (Def ''acme'')
            (Some \<lparr> length_opt = Some (Def (Finite 8)),
                    alphabet_opt = Some (Def ''0123456789abcdef''),
                    separator_opt = Some (Def ''-'') \<rparr>)
            sample_random defaultOptions)
       = Returns (''acme-user-'' @ suffix)
     \<and> length suffix = 8 \<and> set suffix \<subseteq> set ''0123456789abcdef''"
proof -
  have name: "trimmedAndLowerCased ''  User '' = ''user''"
    by code_simp
  show ?thesis
    using dropid_format [of "JStr ''  User ''" "''  User ''" defaultOptions
        "Some \<lparr> length_opt = Some (Def (Finite 8)),
                    alphabet_opt = Some (Def ''0123456789abcdef''),
                    separator_opt = Some (Def ''-'') \<rparr>" 8 "''0123456789abcdef''" "''-''"
        "Def ''acme''" sample_random]
    by (simp add: spread_def structuralPattern_def name)
qed

text \<open>
  Claim C2 (model-name validation). The claim asks for an invalid-argument error, and no
  identifier, for a model name that is absent, not a string, or empty after trimming.
  The source tests the untrimmed value (\<open>!modelName\<close>) and trims only when it builds
  the parts, so \<open>dropid('   ')\<close> in the default configuration passes the check and
  returns an identifier whose model-name segment is empty: the call evaluated here.
  For the other values the claim names, \<open>dropid_invalid_modelName\<close> shows the error.
\<close>

theorem dropid_whitespace_modelName:
  "dropid (JStr ''   '') Undefined None sample_random defaultOptions
     = (Returns ''_3ahov29gnu18'', defaultOptions)"
  by code_simp

text \<open>
  Claim C2, the same call: what \<open>dropid('   ')\<close> returns is not the invalid-argument
  error of the model-name check, and its model-name segment, before the separator, is empty.
\<close>

theorem dropid_whitespace_modelName_witness:
  "fst (dropid (JStr ''   '') Undefined None sample_random defaultOptions)
     \<noteq> Throws (TypeError ''modelName must be a non-empty string'')
   \<and> fst (dropid (JStr ''   '') Undefined None sample_random defaultOptions)
     = Returns (trimmedAndLowerCased ''   '' @ ''_'' @ ''3ahov29gnu18'')
   \<and> trimmedAndLowerCased ''   '' = []"
proof -
  have name: "trimmedAndLowerCased ''   '' = []"
    by code_simp
  show ?thesis
    using dropid_whitespace_modelName by (simp add: name)
qed

text \<open>
  Claim C3, as the code has it. \<open>configure\<close> stores what it is given, without a check:
  after it, the invariant (\<open>length \<ge> 1\<close>, an alphabet of at least 2 characters) holds
  exactly when each of the two fields satisfies its bound, the field taken from the
  update where the update has it and from the previous configuration where it does not.
  The default configuration, and so the configuration after \<open>resetConfig\<close>, satisfies the
  invariant. Hence the configuration reached from the default one by \<open>configure\<close> and
  \<open>resetConfig\<close> satisfies it when every \<open>configure\<close> on the way supplies, for
  \<open>length\<close> and \<open>alphabet\<close>, only values within the bounds.
\<close>

theorem invariant_reachable:
  "(list_all legalOperation operations \<longrightarrow> invariant (performAll operations defaultOptions))
   \<and> invariant (resetConfig g)
   \<and> invariant (configure options g)
      = ((case length_opt options of Some v \<Rightarrow> lengthOk v | None \<Rightarrow> lengthOk (length_req g))
         \<and> (case alphabet_opt options of Some v \<Rightarrow> alphabetOk v | None \<Rightarrow> alphabetOk (alphabet_req g)))"
proof (intro conjI impI)
  assume "list_all legalOperation operations"
  then show "invariant (performAll operations defaultOptions)"
    by (rule invariant_performAll [OF invariant_default])
next
  show "invariant (resetConfig g)"
    by (simp add: resetConfig_def invariant_default)
next
  show "invariant (configure options g)
      = ((case length_opt options of Some v \<Rightarrow> lengthOk v | None \<Rightarrow> lengthOk (length_req g))
         \<and> (case alphabet_opt options of Some v \<Rightarrow> alphabetOk v | None \<Rightarrow> alphabetOk (alphabet_req g)))"
    by (simp add: invariant_def configure_def spread_def split: option.split)
qed

text \<open>
  Claim C3 at a concrete sequence: \<open>configure({length: 16})\<close>, \<open>resetConfig()\<close>,
  \<open>configure({alphabet: '0123456789abcdef', separator: undefined})\<close>; and at one
  \<open>configure({length: 16})\<close> on the default configuration.
\<close>

theorem invariant_reachable_witness:
  "invariant (performAll [Configure (lengthOnly 16), ResetConfig,
      Configure \<lparr> length_opt = None, alphabet_opt = Some (Def ''0123456789abcdef''),
                  separator_opt = Some Undefined \<rparr>] defaultOptions)
   \<and> invariant (resetConfig (configure (lengthOnly 0) defaultOptions))
   \<and> invariant (configure (lengthOnly 16) defaultOptions)"
  using invariant_reachable [of "[Configure (lengthOnly 16), ResetConfig,
      Configure \<lparr> length_opt = None, alphabet_opt = Some (Def ''0123456789abcdef''),
                  separator_opt = Some Undefined \<rparr>]" "configure (lengthOnly 0) defaultOptions"
      "lengthOnly 16"]
    invariant_reachable [of "[]" defaultOptions "lengthOnly 16"]
  by (simp add: legalUpdate_def lengthOnly_def defaultOptions_def)

text \<open>
  Claim C3 as stated fails: after \<open>configure({length: 0})\<close> on the default
  configuration, \<open>length\<close> is 0.
\<close>

theorem invariant_counterexample:
  "\<not> invariant (performAll [Configure (lengthOnly 0)] defaultOptions)"
  by (simp add: invariant_def configure_def spread_def lengthOnly_def)

text \<open>
  Claim C4 (configuration layering). The effective configuration of one call takes each
  field from the call options when the options have it and from the process-wide
  configuration when they do not; \<open>dropid\<close> behaves as a call without options would on
  that merged configuration, and the process-wide configuration is the same after the
  call. In particular, after \<open>configure({length: 16})\<close>, a call with
  \<open>{length: 8}\<close> returns an 8-character suffix and a call without options a
  16-character one (the model name, the alphabet and the separator being valid).
\<close>

theorem configuration_layering:
  "length_req (spread_opt g (Some over))
      = (case length_opt over of Some v \<Rightarrow> v | None \<Rightarrow> length_req g)
   \<and> alphabet_req (spread_opt g (Some over))
      = (case alphabet_opt over of Some v \<Rightarrow> v | None \<Rightarrow> alphabet_req g)
   \<and> separator_req (spread_opt g (Some over))
      = (case separator_opt over of Some v \<Rightarrow> v | None \<Rightarrow> separator_req g)
   \<and> spread_opt g None = g
   \<and> dropid modelName prefix options random g
      = (fst (dropid modelName prefix None random (spread_opt g options)), g)
   \<and> (s \<noteq> [] \<and> alphabet_req g = Def a \<and> 2 \<le> length a \<and> separator_req g = Def sep \<longrightarrow>
        (\<exists>suffix. dropid (JStr s) prefix (Some (lengthOnly 8)) random (configure (lengthOnly 16) g)
            = (Returns (structuralPattern prefix sep (trimmedAndLowerCased s) suffix),
               configure (lengthOnly 16) g)
          \<and> length suffix = 8)
      \<and> (\<exists>suffix. dropid (JStr s) prefix None random (configure (lengthOnly 16) g)
            = (Returns (structuralPattern prefix sep (trimmedAndLowerCased s) suffix),
               configure (lengthOnly 16) g)
          \<and> length suffix = 16))"
proof -
  have fields:
    "length_req (spread_opt g (Some over))
      = (case length_opt over of Some v \<Rightarrow> v | None \<Rightarrow> length_req g)"
    "alphabet_req (spread_opt g (Some over))
      = (case alphabet_opt over of Some v \<Rightarrow> v | None \<Rightarrow> alphabet_req g)"
    "separator_req (spread_opt g (Some over))
      = (case separator_opt over of Some v \<Rightarrow> v | None \<Rightarrow> separator_req g)"
    by (simp_all add: spread_def split: option.split)
  have example:
    "(\<exists>suffix. dropid (JStr s) prefix (Some (lengthOnly 8)) random (configure (lengthOnly 16) g)
            = (Returns (structuralPattern prefix sep (trimmedAndLowerCased s) suffix),
               configure (lengthOnly 16) g)
          \<and> length suffix = 8)
      \<and> (\<exists>suffix. dropid (JStr s) prefix None random (configure (lengthOnly 16) g)
            = (Returns (structuralPattern prefix sep (trimmedAndLowerCased s) suffix),
               configure (lengthOnly 16) g)
          \<and> length suffix = 16)"
    if valid: "s \<noteq> []" "alphabet_req g = Def a" "2 \<le> length a" "separator_req g = Def sep"
  proof
    let ?g = "configure (lengthOnly 16) g"
    have "\<exists>suffix. dropid (JStr s) prefix (Some (lengthOnly 8)) random ?g
       = (Returns (structuralPattern prefix sep (trimmedAndLowerCased s) suffix), ?g)
       \<and> length suffix = 8 \<and> set suffix \<subseteq> set a"
      using valid
      by (intro dropid_returns_suffix) (simp_all add: configure_def spread_def lengthOnly_def)
    then show "\<exists>suffix. dropid (JStr s) prefix (Some (lengthOnly 8)) random ?g
       = (Returns (structuralPattern prefix sep (trimmedAndLowerCased s) suffix), ?g)
       \<and> length suffix = 8"
      by blast
    have "\<exists>suffix. dropid (JStr s) prefix None random ?g
       = (Returns (structuralPattern prefix sep (trimmedAndLowerCased s) suffix), ?g)
       \<and> length suffix = 16 \<and> set suffix \<subseteq> set a"
      using valid
      by (intro dropid_returns_suffix) (simp_all add: configure_def spread_def lengthOnly_def)
    then show "\<exists>suffix. dropid (JStr s) prefix None random ?g
       = (Returns (structuralPattern prefix sep (trimmedAndLowerCased s) suffix), ?g)
       \<and> length suffix = 16"
      by blast
  qed
  from fields example dropid_effective [of modelName prefix options random g]
  show ?thesis by simp
qed

text \<open>
  Claim C4 at concrete calls: after \<open>configure({length: 16})\<close> on the default
  configuration, \<open>dropid('user', undefined, {length: 8})\<close> and \<open>dropid('user')\<close>.
\<close>

theorem configuration_layering_witness:
  "(\<exists>suffix. dropid (JStr ''user'') Undefined (Some (lengthOnly 8)) sample_random
               (configure (lengthOnly 16) defaultOptions)
        = (Returns (''user_'' @ suffix), configure (lengthOnly 16) defaultOptions)
      \<and> length suffix = 8)
   \<and> (\<exists>suffix. dropid (JStr ''user'') Undefined None sample_random
               (configure (lengthOnly 16) defaultOptions)
        = (Returns (''user_'' @ suffix), configure (lengthOnly 16) defaultOptions)
      \<and> length suffix = 16)"
proof -
  have name: "trimmedAndLowerCased ''user'' = ''user''"
    by code_simp
  show ?thesis
    using configuration_layering [where g = defaultOptions and s = "''user''"
        and a = "''0123456789abcdefghijklmnopqrstuvwxyz''" and sep = "''_''"
        and prefix = Undefined and random = sample_random]
    by (simp add: defaultOptions_def structuralPattern_def name)
qed

text \<open>
  Claim C5 (length below 1). A \<open>length\<close> the caller supplies is the effective length
  whatever the global configuration holds, 0 included; and a call whose effective length
  is less than 1 returns no identifier: it throws the out-of-range error, unless the
  model-name check, which runs first, has already thrown its invalid-argument error.
\<close>

theorem length_below_one_is_out_of_range:
  "(length_opt over = Some (Def n) \<and> js_less n (Finite 1) \<longrightarrow>
      dropid modelName prefix (Some over) random g
        = (Throws (if truthy modelName \<and> typeof modelName = ''string''
                   then RangeError ''length must be at least 1''
                   else TypeError ''modelName must be a non-empty string''), g))
   \<and> (js_less (toNumber (length_req (spread_opt g options))) (Finite 1) \<longrightarrow>
      dropid modelName prefix options random g
        = (Throws (if truthy modelName \<and> typeof modelName = ''string''
                   then RangeError ''length must be at least 1''
                   else TypeError ''modelName must be a non-empty string''), g))"
  by (simp add: dropid_def Let_def spread_def)

text \<open>
  Claim C5 at concrete calls: \<open>dropid('user', undefined, {length: 0})\<close> after
  \<open>configure({length: 16})\<close>; \<open>dropid('user')\<close> after \<open>configure({length: -1})\<close>;
  and \<open>dropid('', undefined, {length: 0})\<close>, where the model-name check throws first.
\<close>

theorem length_below_one_is_out_of_range_witness:
  "dropid (JStr ''user'') Undefined (Some (lengthOnly 0)) sample_random (configure (lengthOnly 16) defaultOptions)
     = (Throws (RangeError ''length must be at least 1''), configure (lengthOnly 16) defaultOptions)
   \<and> dropid (JStr ''user'') Undefined None sample_random (configure (lengthOnly (-1)) defaultOptions)
     = (Throws (RangeError ''length must be at least 1''), configure (lengthOnly (-1)) defaultOptions)
   \<and> dropid (JStr []) Undefined (Some (lengthOnly 0)) sample_random defaultOptions
     = (Throws (TypeError ''modelName must be a non-empty string''), defaultOptions)"
  using length_below_one_is_out_of_range [where over = "lengthOnly 0" and n = "Finite 0"
      and modelName = "JStr ''user''" and prefix = Undefined and random = sample_random
      and g = "configure (lengthOnly 16) defaultOptions" and options = "Some (lengthOnly 0)"]
    length_below_one_is_out_of_range [where over = "lengthOnly 0" and n = "Finite 0"
      and modelName = "JStr ''user''" and prefix = Undefined and random = sample_random
      and g = "configure (lengthOnly (-1)) defaultOptions" and options = None]
    length_below_one_is_out_of_range [where over = "lengthOnly 0" and n = "Finite 0"
      and modelName = "JStr []" and prefix = Undefined and random = sample_random
      and g = defaultOptions and options = None]
  by (simp add: lengthOnly_def configure_def spread_def)

text \<open>
  Claim C6 (frame). Whatever \<open>dropid\<close> is called with, and whether it returns or throws,
  the process-wide configuration after the call is the one before it.
\<close>

theorem dropid_leaves_configuration:
  "snd (dropid modelName prefix options random globalOptions) = globalOptions"
  by (simp add: dropid_def Let_def split: option.split)

text \<open>Claim C6 at a call that returns and at a call that throws.\<close>

theorem dropid_leaves_configuration_witness:
  "snd (dropid (JStr ''user'') (Def ''acme'') (Some (lengthOnly 8)) sample_random defaultOptions)
     = defaultOptions
   \<and> snd (dropid JNull Undefined (Some (lengthOnly 0)) sample_random defaultOptions)
     = defaultOptions"
  using dropid_leaves_configuration [of "JStr ''user''" "Def ''acme''" "Some (lengthOnly 8)" sample_random defaultOptions]
    dropid_leaves_configuration [of JNull Undefined "Some (lengthOnly 0)" sample_random defaultOptions]
  by simp

text \<open>
  Claim C7 (merge). \<open>configure\<close> merges field by field: a field the update has takes the
  supplied value, a field it omits keeps the value the process-wide configuration had.
\<close>

theorem configure_merges:
  "length_req (configure options g)
      = (case length_opt options of Some v \<Rightarrow> v | None \<Rightarrow> length_req g)
   \<and> alphabet_req (configure options g)
      = (case alphabet_opt options of Some v \<Rightarrow> v | None \<Rightarrow> alphabet_req g)
   \<and> separator_req (configure options g)
      = (case separator_opt options of Some v \<Rightarrow> v | None \<Rightarrow> separator_req g)"
  by (simp add: configure_def spread_def split: option.split)

text \<open>Claim C7 at \<open>configure({length: 16, separator: '-'})\<close> on the default configuration.\<close>

theorem configure_merges_witness:
  "length_req (configure \<lparr> length_opt = Some (Def (Finite 16)), alphabet_opt = None,
                           separator_opt = Some (Def ''-'') \<rparr> defaultOptions) = Def (Finite 16)
   \<and> alphabet_req (configure \<lparr> length_opt = Some (Def (Finite 16)), alphabet_opt = None,
                           separator_opt = Some (Def ''-'') \<rparr> defaultOptions)
       = Def ''0123456789abcdefghijklmnopqrstuvwxyz''
   \<and> separator_req (configure \<lparr> length_opt = Some (Def (Finite 16)), alphabet_opt = None,
                           separator_opt = Some (Def ''-'') \<rparr> defaultOptions) = Def ''-''"
  using configure_merges [of "\<lparr> length_opt = Some (Def (Finite 16)), alphabet_opt = None,
                           separator_opt = Some (Def ''-'') \<rparr>" defaultOptions]
  by (simp add: defaultOptions_def)

text \<open>
  Claim C8 (prefixed generator). For a prefix that is a non-empty string,
  \<open>createPrefixedId\<close> returns a function that, on every model name, random source and
  process-wide configuration, does what \<open>dropid\<close> does with that prefix and the captured
  options; for a prefix that is absent, not a string or empty it throws the
  invalid-argument error at creation. Neither changes the configuration.
\<close>

theorem createPrefixedId_delegates:
  "(\<forall>s. prefix = JStr s \<and> s \<noteq> [] \<longrightarrow>
      (\<exists>f. createPrefixedId prefix options g0 = (Inr f, g0)
         \<and> (\<forall>modelName random g. f modelName random g = dropid modelName (Def s) options random g)))
   \<and> ((\<forall>s. prefix = JStr s \<longrightarrow> s = []) \<longrightarrow>
      createPrefixedId prefix options g0
        = (Inl (TypeError ''prefix must be a non-empty string''), g0))"
proof (intro conjI allI impI)
  fix s assume "prefix = JStr s \<and> s \<noteq> []"
  then show "\<exists>f. createPrefixedId prefix options g0 = (Inr f, g0)
         \<and> (\<forall>modelName random g. f modelName random g = dropid modelName (Def s) options random g)"
    by (simp add: createPrefixedId_def)
next
  assume "\<forall>s. prefix = JStr s \<longrightarrow> s = []"
  then have "\<not> truthy prefix \<or> typeof prefix \<noteq> ''string''"
    using valid_modelName_iff [of prefix] by blast
  then show "createPrefixedId prefix options g0
        = (Inl (TypeError ''prefix must be a non-empty string''), g0)"
    by (simp add: createPrefixedId_def)
qed

text \<open>
  Claim C8 at \<open>createPrefixedId('acme', {length: 16})\<close>, called on a valid and on an
  invalid model name, and at the prefixes \<open>''\<close>, \<open>undefined\<close> and \<open>7\<close>.
\<close>

theorem createPrefixedId_delegates_witness:
  "(\<exists>f. createPrefixedId (JStr ''acme'') (Some (lengthOnly 16)) defaultOptions = (Inr f, defaultOptions)
       \<and> f (JStr ''user'') sample_random defaultOptions
           = dropid (JStr ''user'') (Def ''acme'') (Some (lengthOnly 16)) sample_random defaultOptions
       \<and> f JNull sample_random defaultOptions
           = dropid JNull (Def ''acme'') (Some (lengthOnly 16)) sample_random defaultOptions)
   \<and> createPrefixedId (JStr []) None defaultOptions
       = (Inl (TypeError ''prefix must be a non-empty string''), defaultOptions)
   \<and> createPrefixedId JUndefined None defaultOptions
       = (Inl (TypeError ''prefix must be a non-empty string''), defaultOptions)
   \<and> createPrefixedId (JNum (Finite 7)) None defaultOptions
       = (Inl (TypeError ''prefix must be a non-empty string''), defaultOptions)"
  using createPrefixedId_delegates [of "JStr ''acme''" "Some (lengthOnly 16)" defaultOptions]
    createPrefixedId_delegates [of "JStr []" None defaultOptions]
    createPrefixedId_delegates [of JUndefined None defaultOptions]
    createPrefixedId_delegates [of "JNum (Finite 7)" None defaultOptions]
  by auto

text \<open>
  Claim C9 (verbatim prefix). On a call that validates, a non-empty prefix opens the
  identifier exactly as it was supplied, neither trimmed nor lower-cased, followed by
  the separator and the normalized model name.
\<close>

theorem prefix_is_verbatim:
  assumes "p \<noteq> []" and "s \<noteq> []"
    and "spread_opt globalOptions options =
           \<lparr> length_req = Def (Finite (of_nat n)), alphabet_req = Def alphabet,
             separator_req = Def separator \<rparr>"
    and "1 \<le> n" and "2 \<le> length alphabet"
  shows "\<exists>suffix.
           fst (dropid (JStr s) (Def p) options random globalOptions)
             = Returns (p @ separator @ trimmedAndLowerCased s @ separator @ suffix)
         \<and> length suffix = n"
proof -
  have "\<exists>suffix. dropid (JStr s) (Def p) options random globalOptions
       = (Returns (structuralPattern (Def p) separator (trimmedAndLowerCased s) suffix), globalOptions)
     \<and> length suffix = n \<and> set suffix \<subseteq> set alphabet"
    using assms by (intro dropid_returns_suffix) simp_all
  with assms(1) show ?thesis
    by (auto simp: structuralPattern_def)
qed

text \<open>Claim C9 at \<open>dropid('User', 'ACME ')\<close> in the default configuration.\<close>

theorem prefix_is_verbatim_witness:
  "\<exists>suffix.
     fst (dropid (JStr ''User'') (Def ''ACME '') None sample_random defaultOptions)
       = Returns (''ACME _user_'' @ suffix)
     \<and> length suffix = 12"
proof -
  have name: "trimmedAndLowerCased ''User'' = ''user''"
    by code_simp
  show ?thesis
    using prefix_is_verbatim [of "''ACME ''" "''User''" defaultOptions None 12
        "''0123456789abcdefghijklmnopqrstuvwxyz''" "''_''" sample_random]
    by (simp add: defaultOptions_def name)
qed

text \<open>
  Claim C10 (configuration read at each call). The function \<open>createPrefixedId\<close> returns
  resolves the process-wide configuration when it is called: called after a
  \<open>configure\<close>, it does what \<open>dropid\<close> does on the configuration that \<open>configure\<close> left,
  merged under the captured options. A generator created with no options returns a
  16-character suffix once \<open>configure({length: 16})\<close> has been called.
\<close>

theorem generator_reads_configuration_when_called:
  assumes "p \<noteq> []" and "createPrefixedId (JStr p) options g0 = (Inr f, g1)"
  shows "f modelName random (configure update g)
           = (fst (dropid modelName (Def p) None random (spread_opt (configure update g) options)),
              configure update g)
       \<and> (options = None \<and> s \<noteq> [] \<and> alphabet_req g = Def a \<and> 2 \<le> length a
            \<and> separator_req g = Def sep \<longrightarrow>
          (\<exists>suffix. fst (f (JStr s) random (configure (lengthOnly 16) g))
               = Returns (p @ sep @ trimmedAndLowerCased s @ sep @ suffix)
             \<and> length suffix = 16))"
proof -
  from assms have f: "f = (\<lambda>modelName. dropid modelName (Def p) options)"
    by (simp add: createPrefixedId_def)
  have example: "\<exists>suffix. fst (f (JStr s) random (configure (lengthOnly 16) g))
               = Returns (p @ sep @ trimmedAndLowerCased s @ sep @ suffix)
             \<and> length suffix = 16"
    if valid: "options = None" "s \<noteq> []" "alphabet_req g = Def a" "2 \<le> length a"
      "separator_req g = Def sep"
  proof -
    let ?g = "configure (lengthOnly 16) g"
    have "\<exists>suffix. dropid (JStr s) (Def p) None random ?g
       = (Returns (structuralPattern (Def p) sep (trimmedAndLowerCased s) suffix), ?g)
       \<and> length suffix = 16 \<and> set suffix \<subseteq> set a"
      using valid
      by (intro dropid_returns_suffix) (simp_all add: configure_def spread_def lengthOnly_def)
    with assms(1) valid(1) show ?thesis
      by (auto simp: f structuralPattern_def)
  qed
  from example dropid_effective [of modelName "Def p" options random "configure update g"]
  show ?thesis by (simp add: f)
qed

text \<open>
  Claim C10 at \<open>createPrefixedId('acme')\<close>, created in the default configuration: a
  12-character suffix there, a 16-character one after \<open>configure({length: 16})\<close>.
\<close>

theorem generator_reads_configuration_when_called_witness:
  "\<exists>f. createPrefixedId (JStr ''acme'') None defaultOptions = (Inr f, defaultOptions)
     \<and> (\<exists>suffix. fst (f (JStr ''user'') sample_random defaultOptions)
            = Returns (''acme_user_'' @ suffix) \<and> length suffix = 12)
     \<and> (\<exists>suffix. fst (f (JStr ''user'') sample_random (configure (lengthOnly 16) defaultOptions))
            = Returns (''acme_user_'' @ suffix) \<and> length suffix = 16)"
proof -
  let ?f = "\<lambda>modelName. dropid modelName (Def ''acme'') None"
  have name: "trimmedAndLowerCased ''user'' = ''user''"
    by code_simp
  have created: "createPrefixedId (JStr ''acme'') None defaultOptions = (Inr ?f, defaultOptions)"
    by (simp add: createPrefixedId_def)
  have "fst (?f (JStr ''user'') sample_random defaultOptions)
      = Returns (''acme_user_'' @ ''3ahov29gnu18'')"
    by code_simp
  then have before: "\<exists>suffix. fst (?f (JStr ''user'') sample_random defaultOptions)
      = Returns (''acme_user_'' @ suffix) \<and> length suffix = 12"
    by simp
  have after: "\<exists>suffix. fst (?f (JStr ''user'') sample_random (configure (lengthOnly 16) defaultOptions))
      = Returns (''acme_user_'' @ suffix) \<and> length suffix = 16"
    using generator_reads_configuration_when_called [OF _ created, where s = "''user''"
        and a = "''0123456789abcdefghijklmnopqrstuvwxyz''" and sep = "''_''"
        and g = defaultOptions and random = sample_random]
    by (simp add: defaultOptions_def name)
  from created before after show ?thesis
    by blast
qed

end
